theory Spec2Isabelle
  imports Complex_Main
begin

section \<open>Numbers of the notebook\<close>

text \<open>
  The titration notebook computes with Python floats and with numpy arrays of float64.
  A finite float is modelled by the real number it stands for (no rounding, no overflow,
  no signed zero); the three values of IEEE arithmetic that are not finite are kept, since
  numpy produces them instead of raising: \<open>np.sqrt\<close> and \<open>np.log10\<close> of a negative
  number give nan, \<open>np.log10(0)\<close> gives \<open>-inf\<close>, and a numpy division by zero gives
  an infinity or nan (each with a RuntimeWarning only).

  Rounding is outside this ideal model, which is used for the properties that rounding
  does not decide: what raises and what does not, and the notebook's own values, where the
  margins are many orders of magnitude above the rounding error of float64. The properties
  that depend on rounding are stated on the float64 arithmetic defined further below.
\<close>

datatype npfloat = Fin real | PInf | NInf | NaN

text \<open>The sign of a value, and the infinity (or nan) of a given sign.\<close>

fun sgn_of :: "npfloat \<Rightarrow> real" where
  "sgn_of (Fin x) = sgn x"
| "sgn_of PInf = 1"
| "sgn_of NInf = - 1"
| "sgn_of NaN = 0"

definition inf_of_sign :: "real \<Rightarrow> npfloat" where
  "inf_of_sign s = (if 0 < s then PInf else if s < 0 then NInf else NaN)"

fun np_neg :: "npfloat \<Rightarrow> npfloat" where
  "np_neg (Fin x) = Fin (- x)"
| "np_neg PInf = NInf"
| "np_neg NInf = PInf"
| "np_neg NaN = NaN"

fun np_add :: "npfloat \<Rightarrow> npfloat \<Rightarrow> npfloat" where
  "np_add (Fin x) (Fin y) = Fin (x + y)"
| "np_add NaN y = NaN"
| "np_add x NaN = NaN"
| "np_add PInf NInf = NaN"
| "np_add NInf PInf = NaN"
| "np_add PInf y = PInf"
| "np_add NInf y = NInf"
| "np_add x PInf = PInf"
| "np_add x NInf = NInf"

definition np_sub :: "npfloat \<Rightarrow> npfloat \<Rightarrow> npfloat" where
  "np_sub x y = np_add x (np_neg y)"

fun np_mul :: "npfloat \<Rightarrow> npfloat \<Rightarrow> npfloat" where
  "np_mul (Fin x) (Fin y) = Fin (x * y)"
| "np_mul NaN y = NaN"
| "np_mul x NaN = NaN"
| "np_mul x y = inf_of_sign (sgn_of x * sgn_of y)"

fun np_div :: "npfloat \<Rightarrow> npfloat \<Rightarrow> npfloat" where
  "np_div (Fin x) (Fin y) = (if y = 0 then inf_of_sign (sgn x) else Fin (x / y))"
| "np_div NaN y = NaN"
| "np_div x NaN = NaN"
| "np_div (Fin x) y = Fin 0"
| "np_div x (Fin y) = inf_of_sign (sgn_of x * (if y < 0 then - 1 else 1))"
| "np_div x y = NaN"

fun np_sqrt :: "npfloat \<Rightarrow> npfloat" where
  "np_sqrt (Fin x) = (if x < 0 then NaN else Fin (sqrt x))"
| "np_sqrt PInf = PInf"
| "np_sqrt NInf = NaN"
| "np_sqrt NaN = NaN"

fun np_log10 :: "npfloat \<Rightarrow> npfloat" where
  "np_log10 (Fin x) = (if x < 0 then NaN else if x = 0 then NInf else Fin (log 10 x))"
| "np_log10 PInf = PInf"
| "np_log10 NInf = NaN"
| "np_log10 NaN = NaN"


fun np_lt :: "npfloat \<Rightarrow> npfloat \<Rightarrow> bool" where
  "np_lt (Fin x) (Fin y) = (x < y)"
| "np_lt NaN y = False"
| "np_lt x NaN = False"
| "np_lt PInf y = False"
| "np_lt x NInf = False"
| "np_lt x y = True"


text \<open>
  The real number a finite value stands for (and 0 for the others), used to state limits
  of values that are known to be finite.
\<close>

fun np_real :: "npfloat \<Rightarrow> real" where
  "np_real (Fin x) = x"
| "np_real x = 0"

section \<open>The quadratic solver\<close>

text \<open>
  \<^verbatim>\<open>
  def quad_solve(a, b, c):
      discrim = np.sqrt(b**2 - 4 * a * c)
      sol1 = (-b + discrim)/(2 * a)
      sol2 = (-b - discrim)/(2 * a)
      return [sol1,sol2]
  \<close>
  The function has no check and no raise: \<open>np.sqrt\<close> makes every later value a numpy
  float, so that neither a negative discriminant nor \<open>a = 0\<close> raises. The square
  \<open>b**2\<close> is the product of \<open>b\<close> with itself.
\<close>

definition quad_solve :: "npfloat \<Rightarrow> npfloat \<Rightarrow> npfloat \<Rightarrow> npfloat list" where
  "quad_solve a b c =
     (let discrim = np_sqrt (np_sub (np_mul b b) (np_mul (np_mul (Fin 4) a) c));
          sol1 = np_div (np_add (np_neg b) discrim) (np_mul (Fin 2) a);
          sol2 = np_div (np_sub (np_neg b) discrim) (np_mul (Fin 2) a)
      in [sol1, sol2])"

section \<open>Equivalence point and half-equivalence point\<close>

text \<open>
  The second code cell works on plain Python floats:
  \<^verbatim>\<open>
  acid_VolI = 0.0513
  acid_ConI = 0.131
  acid_MolI = acid_VolI * acid_ConI
  base_Con = 0.0953
  eq_pt = acid_MolI/base_Con
  half_eq_pt = eq_pt/2
  \<close>
  A division of Python floats raises ZeroDivisionError on a zero divisor; nothing else in
  the cell can raise, and the cell tests none of its inputs. The cell is modelled as a
  function of the three values it assigns (\<open>V_a\<close> for \<open>acid_VolI\<close>, \<open>C_a\<close> for
  \<open>acid_ConI\<close>, \<open>C_b\<close> for \<open>base_Con\<close>) that returns the three values it computes.
\<close>

datatype error = ZeroDivisionError

definition py_div :: "real \<Rightarrow> real \<Rightarrow> error + real" where
  "py_div x y = (if y = 0 then Inl ZeroDivisionError else Inr (x / y))"

record equivalence =
  acid_MolI :: real
  eq_pt :: real
  half_eq_pt :: real

definition equivalence_cell :: "real \<Rightarrow> real \<Rightarrow> real \<Rightarrow> error + equivalence" where
  "equivalence_cell V_a C_a C_b =
     (let m = V_a * C_a in
      case py_div m C_b of
        Inl e \<Rightarrow> Inl e
      | Inr q \<Rightarrow> Inr \<lparr>acid_MolI = m, eq_pt = q, half_eq_pt = q / 2\<rparr>)"

text \<open>The values the notebook assigns.\<close>

definition acid_VolI :: real where "acid_VolI = 513 / 10000"
definition acid_ConI :: real where "acid_ConI = 131 / 1000"
definition base_Con :: real where "base_Con = 953 / 10000"
definition equilibConst :: real where "equilibConst = 176 / 10000000"
definition H3O_water :: real where "H3O_water = 1 / 10000000"

text \<open>
  A value is within relative tolerance \<open>tol\<close> of the expected one when the distance is
  at most \<open>tol\<close> times the size of the expected value.
\<close>

definition within_rel :: "real \<Rightarrow> real \<Rightarrow> real \<Rightarrow> bool" where
  "within_rel tol expected actual = (\<bar>actual - expected\<bar> \<le> tol * \<bar>expected\<bar>)"

section \<open>Volume grids\<close>

text \<open>
  \<^verbatim>\<open>
  xrange = np.linspace(0,half_eq_pt,num=datapts,endpoint=False,retstep=True)
  PreHalfEqVols = xrange[0]
  VolStep = xrange[1]
  xrange = np.linspace(half_eq_pt,eq_pt,num=datapts,endpoint=False,retstep=True)
  PostHalfEqVols = xrange[0]
  VolStep2 = xrange[1]
  \<close>
  \<open>np.linspace\<close> belongs to numpy; it is modelled as numpy documents and computes it for
  \<open>endpoint=False, retstep=True\<close>: the step is \<open>(stop - start) / num\<close> (nan when
  \<open>num\<close> is 0), the samples are \<open>arange(0, num) * step + start\<close>, and the result is
  the pair of the samples and the step.
\<close>

definition linspace :: "real \<Rightarrow> real \<Rightarrow> nat \<Rightarrow> real list \<times> npfloat" where
  "linspace start stop num =
     (let step = (stop - start) / real num
      in (map (\<lambda>i. real i * step + start) [0..<num],
          if num = 0 then NaN else Fin step))"


definition VolStep :: "real \<Rightarrow> nat \<Rightarrow> npfloat" where
  "VolStep half num = snd (linspace 0 half num)"

definition PostHalfEqVols :: "real \<Rightarrow> real \<Rightarrow> nat \<Rightarrow> real list" where
  "PostHalfEqVols half eq num = fst (linspace half eq num)"

definition VolStep2 :: "real \<Rightarrow> real \<Rightarrow> nat \<Rightarrow> npfloat" where
  "VolStep2 half eq num = snd (linspace half eq num)"

section \<open>The buffer model before the half-equivalence point\<close>

text \<open>
  \<^verbatim>\<open>
  equilibConst = 1.76E-5
  H3O_water = 1E-7
  init_baseConc = (PreHalfEqVols*base_Con)/(PreHalfEqVols+acid_VolI)
  init_acidConc = (acid_ConI*acid_VolI-PreHalfEqVols*base_Con)/(PreHalfEqVols+acid_VolI)
  pre_solutions = quad_solve(1,init_baseConc+equilibConst+H3O_water,
                             init_baseConc*H3O_water-init_acidConc*equilibConst)
  preH3Oconc = pre_solutions[0]
  pre_pH = -np.log10(preH3Oconc)
  \<close>
  numpy works on the array \<open>PreHalfEqVols\<close> element by element. Each name of the cell
  is modelled as the function that gives its value at one element \<open>v\<close> of the array
  (\<open>K_a\<close> stands for \<open>equilibConst\<close>, \<open>H_w\<close> for \<open>H3O_water\<close>); \<open>pre_pH_curve\<close> is
  the array \<open>pre_pH\<close> itself.
\<close>

definition init_baseConc :: "npfloat \<Rightarrow> npfloat \<Rightarrow> npfloat \<Rightarrow> npfloat" where
  "init_baseConc V_a C_b v = np_div (np_mul v C_b) (np_add v V_a)"

definition init_acidConc :: "npfloat \<Rightarrow> npfloat \<Rightarrow> npfloat \<Rightarrow> npfloat \<Rightarrow> npfloat" where
  "init_acidConc V_a C_a C_b v =
     np_div (np_sub (np_mul C_a V_a) (np_mul v C_b)) (np_add v V_a)"

definition pre_solutions ::
  "npfloat \<Rightarrow> npfloat \<Rightarrow> npfloat \<Rightarrow> npfloat \<Rightarrow> npfloat \<Rightarrow> npfloat \<Rightarrow> npfloat list" where
  "pre_solutions V_a C_a C_b K_a H_w v =
     quad_solve (Fin 1)
       (np_add (np_add (init_baseConc V_a C_b v) K_a) H_w)
       (np_sub (np_mul (init_baseConc V_a C_b v) H_w)
               (np_mul (init_acidConc V_a C_a C_b v) K_a))"

definition preH3Oconc ::
  "npfloat \<Rightarrow> npfloat \<Rightarrow> npfloat \<Rightarrow> npfloat \<Rightarrow> npfloat \<Rightarrow> npfloat \<Rightarrow> npfloat" where
  "preH3Oconc V_a C_a C_b K_a H_w v = pre_solutions V_a C_a C_b K_a H_w v ! 0"

definition pre_pH ::
  "npfloat \<Rightarrow> npfloat \<Rightarrow> npfloat \<Rightarrow> npfloat \<Rightarrow> npfloat \<Rightarrow> npfloat \<Rightarrow> npfloat" where
  "pre_pH V_a C_a C_b K_a H_w v = np_neg (np_log10 (preH3Oconc V_a C_a C_b K_a H_w v))"


text \<open>
  The concentrations and the coefficients of the quadratic as the specification writes
  them, on real numbers.
\<close>

definition conc_base :: "real \<Rightarrow> real \<Rightarrow> real \<Rightarrow> real" where
  "conc_base V_a C_b v = (v * C_b) / (V_a + v)"

definition conc_acid :: "real \<Rightarrow> real \<Rightarrow> real \<Rightarrow> real \<Rightarrow> real" where
  "conc_acid V_a C_a C_b v = (V_a * C_a - v * C_b) / (V_a + v)"

definition coeff_b :: "real \<Rightarrow> real \<Rightarrow> real \<Rightarrow> real \<Rightarrow> real \<Rightarrow> real" where
  "coeff_b V_a C_b K_a H_w v = conc_base V_a C_b v + K_a + H_w"

definition coeff_c :: "real \<Rightarrow> real \<Rightarrow> real \<Rightarrow> real \<Rightarrow> real \<Rightarrow> real \<Rightarrow> real" where
  "coeff_c V_a C_a C_b K_a H_w v =
     conc_base V_a C_b v * H_w - conc_acid V_a C_a C_b v * K_a"

section \<open>Float64 arithmetic\<close>

text \<open>
  The same operations as Python and numpy compute them on float64 (IEEE 754 binary64,
  rounding to nearest): the exact result is rounded to the nearest float64, a tie going to
  the even mantissa; a rounded result of size \<open>2\<^sup>1\<^sup>0\<^sup>2\<^sup>4\<close> or more becomes an infinity; small
  results are rounded on the subnormal grid. The floats \<open>x\<close> with
  \<open>2\<^sup>k \<le> \<bar>x\<bar> < 2\<^sup>k\<^sup>+\<^sup>1\<close> are the multiples of \<open>2\<^sup>k\<^sup>-\<^sup>5\<^sup>2\<close>, and below \<open>2\<^sup>-\<^sup>1\<^sup>0\<^sup>2\<^sup>2\<close> they are
  the multiples of \<open>2\<^sup>-\<^sup>1\<^sup>0\<^sup>7\<^sup>4\<close>: \<open>f64_exp x\<close> is that exponent of the last place. The sign of
  zero is not modelled.
\<close>

definition round_even :: "real \<Rightarrow> int" where
  "round_even r =
     (let n = \<lfloor>r\<rfloor>; d = r - of_int n
      in if d < 1 / 2 then n else if 1 / 2 < d then n + 1 else if even n then n else n + 1)"

definition f64_exp :: "real \<Rightarrow> int" where
  "f64_exp x = max \<lfloor>log 2 \<bar>x\<bar>\<rfloor> (- 1022) - 52"

definition f64_huge :: real where
  "f64_huge = 2 ^ 1024"

definition rnd64 :: "real \<Rightarrow> npfloat" where
  "rnd64 x =
     (if x = 0 then Fin 0
      else let e = f64_exp x; y = of_int (round_even (x / 2 powi e)) * 2 powi e
           in if f64_huge \<le> \<bar>y\<bar> then (if 0 < x then PInf else NInf) else Fin y)"






definition f64_sqrt :: "npfloat \<Rightarrow> npfloat" where
  "f64_sqrt x = (case x of Fin a \<Rightarrow> if a < 0 then NaN else rnd64 (sqrt a) | _ \<Rightarrow> np_sqrt x)"

















section \<open>The solver in the ideal model\<close>

lemma quad_solve_Fin:
  assumes "a \<noteq> 0" and "0 \<le> b\<^sup>2 - 4 * a * c"
  shows "quad_solve (Fin a) (Fin b) (Fin c) =
    [Fin ((- b + sqrt (b\<^sup>2 - 4 * a * c)) / (2 * a)),
     Fin ((- b - sqrt (b\<^sup>2 - 4 * a * c)) / (2 * a))]"
  using assms by (simp add: quad_solve_def np_sub_def Let_def power2_eq_square)


section \<open>Properties of the equivalence cell\<close>

lemma equivalence_cell_pos:
  assumes "C_b \<noteq> 0"
  shows "equivalence_cell V_a C_a C_b =
    Inr \<lparr>acid_MolI = V_a * C_a, eq_pt = V_a * C_a / C_b, half_eq_pt = V_a * C_a / C_b / 2\<rparr>"
  using assms by (simp add: equivalence_cell_def py_div_def Let_def)

lemma notebook_equivalence:
  "equivalence_cell acid_VolI acid_ConI base_Con =
    Inr \<lparr>acid_MolI = 67203 / 10000000, eq_pt = 67203 / 953000, half_eq_pt = 67203 / 1906000\<rparr>"
  by (simp add: equivalence_cell_def py_div_def Let_def acid_VolI_def acid_ConI_def base_Con_def)

text \<open>
  C7 (as the code has it). The cell validates nothing: it fails, with Python's
  ZeroDivisionError, exactly when \<open>C_b = 0\<close>. In particular it succeeds for positive
  inputs, and it also accepts a zero or negative \<open>V_a\<close> or \<open>C_a\<close> and a negative \<open>C_b\<close>.
\<close>

theorem equivalence_cell_fails_iff:
  "(\<exists>err. equivalence_cell V_a C_a C_b = Inl err) \<longleftrightarrow> C_b = 0"
  by (simp add: equivalence_cell_def py_div_def Let_def)

text \<open>
  The cell succeeds on a negative volume, and on zero moles with a negative titrant
  concentration.
\<close>

theorem equivalence_cell_accepts_counterexample:
  "equivalence_cell (- 1) 1 1 = Inr \<lparr>acid_MolI = - 1, eq_pt = - 1, half_eq_pt = - 1 / 2\<rparr>
   \<and> equivalence_cell 0 0 (- 1) = Inr \<lparr>acid_MolI = 0, eq_pt = 0, half_eq_pt = 0\<rparr>"
  by (simp add: equivalence_cell_def py_div_def Let_def)

text \<open>
  The half-equivalence volume of the notebook is 0.0352587...; it is not within relative
  tolerance 1e-3 of 0.0353, whichever of the two values the tolerance is scaled by.
\<close>

theorem half_eq_pt_tolerance_counterexample:
  "equivalence_cell acid_VolI acid_ConI base_Con =
     Inr \<lparr>acid_MolI = 67203 / 10000000, eq_pt = 67203 / 953000, half_eq_pt = 67203 / 1906000\<rparr>
   \<and> \<not> within_rel (1 / 1000) (353 / 10000) (67203 / 1906000)
   \<and> \<not> within_rel (1 / 1000) (67203 / 1906000) (353 / 10000)"
  by (simp add: notebook_equivalence within_rel_def)

section \<open>Properties of the volume grids\<close>





section \<open>Properties of the buffer model\<close>

lemma init_baseConc_Fin:
  assumes "V_a + v \<noteq> 0"
  shows "init_baseConc (Fin V_a) (Fin C_b) (Fin v) = Fin (conc_base V_a C_b v)"
  using assms by (simp add: init_baseConc_def conc_base_def add.commute)

lemma init_acidConc_Fin:
  assumes "V_a + v \<noteq> 0"
  shows "init_acidConc (Fin V_a) (Fin C_a) (Fin C_b) (Fin v) = Fin (conc_acid V_a C_a C_b v)"
  using assms by (simp add: init_acidConc_def conc_acid_def np_sub_def add.commute mult.commute)

lemma pre_solutions_quad:
  assumes "V_a + v \<noteq> 0"
  shows "pre_solutions (Fin V_a) (Fin C_a) (Fin C_b) (Fin K_a) (Fin H_w) (Fin v) =
    quad_solve (Fin 1) (Fin (coeff_b V_a C_b K_a H_w v)) (Fin (coeff_c V_a C_a C_b K_a H_w v))"
  by (simp add: pre_solutions_def init_baseConc_Fin [OF assms] init_acidConc_Fin [OF assms]
      coeff_b_def coeff_c_def np_sub_def)

lemma pre_solutions_Fin:
  assumes "V_a + v \<noteq> 0"
    and "0 \<le> (coeff_b V_a C_b K_a H_w v)\<^sup>2 - 4 * 1 * coeff_c V_a C_a C_b K_a H_w v"
  shows "pre_solutions (Fin V_a) (Fin C_a) (Fin C_b) (Fin K_a) (Fin H_w) (Fin v) =
    [Fin ((- coeff_b V_a C_b K_a H_w v
            + sqrt ((coeff_b V_a C_b K_a H_w v)\<^sup>2 - 4 * 1 * coeff_c V_a C_a C_b K_a H_w v)) / (2 * 1)),
     Fin ((- coeff_b V_a C_b K_a H_w v
            - sqrt ((coeff_b V_a C_b K_a H_w v)\<^sup>2 - 4 * 1 * coeff_c V_a C_a C_b K_a H_w v)) / (2 * 1))]"
  unfolding pre_solutions_quad [OF assms(1)]
  by (rule quad_solve_Fin [OF _ assms(2)]) simp




lemma notebook_positive:
  "0 < acid_VolI" "0 < acid_ConI" "0 < base_Con" "0 < equilibConst" "0 \<le> H3O_water"
  by (simp_all add: acid_VolI_def acid_ConI_def base_Con_def equilibConst_def H3O_water_def)

lemma roots_signs_neg_c:
  fixes b c :: real
  assumes "c < 0"
  shows "0 < (- b + sqrt (b\<^sup>2 - 4 * 1 * c)) / (2 * 1)"
    and "(- b - sqrt (b\<^sup>2 - 4 * 1 * c)) / (2 * 1) < 0"
proof -
  have "b\<^sup>2 < b\<^sup>2 - 4 * 1 * c" using assms by simp
  then have "sqrt (b\<^sup>2) < sqrt (b\<^sup>2 - 4 * 1 * c)" by (rule real_sqrt_less_mono)
  then have s: "\<bar>b\<bar> < sqrt (b\<^sup>2 - 4 * 1 * c)" by simp
  from s show "0 < (- b + sqrt (b\<^sup>2 - 4 * 1 * c)) / (2 * 1)" by simp
  from s show "(- b - sqrt (b\<^sup>2 - 4 * 1 * c)) / (2 * 1) < 0" by simp
qed









lemma pre_pH_real:
  assumes "0 < V_a" and "0 \<le> v" and "coeff_c V_a C_a C_b K_a H_w v < 0"
  shows "preH3Oconc (Fin V_a) (Fin C_a) (Fin C_b) (Fin K_a) (Fin H_w) (Fin v) =
      Fin ((- coeff_b V_a C_b K_a H_w v
            + sqrt ((coeff_b V_a C_b K_a H_w v)\<^sup>2 - 4 * 1 * coeff_c V_a C_a C_b K_a H_w v)) / (2 * 1))"
    and "0 < (- coeff_b V_a C_b K_a H_w v
            + sqrt ((coeff_b V_a C_b K_a H_w v)\<^sup>2 - 4 * 1 * coeff_c V_a C_a C_b K_a H_w v)) / (2 * 1)"
    and "pre_pH (Fin V_a) (Fin C_a) (Fin C_b) (Fin K_a) (Fin H_w) (Fin v) =
      Fin (- log 10 ((- coeff_b V_a C_b K_a H_w v
            + sqrt ((coeff_b V_a C_b K_a H_w v)\<^sup>2 - 4 * 1 * coeff_c V_a C_a C_b K_a H_w v)) / (2 * 1)))"
proof -
  have nz: "V_a + v \<noteq> 0" using assms(1,2) by simp
  define b where "b = coeff_b V_a C_b K_a H_w v"
  define c where "c = coeff_c V_a C_a C_b K_a H_w v"
  have c: "c < 0" using assms(3) unfolding c_def .
  have "0 \<le> b\<^sup>2" by simp
  with c have d: "0 \<le> b\<^sup>2 - 4 * 1 * c" by linarith
  define r where "r = (- b + sqrt (b\<^sup>2 - 4 * 1 * c)) / (2 * 1)"
  define r' where "r' = (- b - sqrt (b\<^sup>2 - 4 * 1 * c)) / (2 * 1)"
  have "pre_solutions (Fin V_a) (Fin C_a) (Fin C_b) (Fin K_a) (Fin H_w) (Fin v) = [Fin r, Fin r']"
    unfolding r_def r'_def b_def c_def
    by (rule pre_solutions_Fin [OF nz d [unfolded b_def c_def]])
  then have h: "preH3Oconc (Fin V_a) (Fin C_a) (Fin C_b) (Fin K_a) (Fin H_w) (Fin v) = Fin r"
    by (simp only: preH3Oconc_def nth_Cons_0)
  have pos: "0 < r" unfolding r_def by (rule roots_signs_neg_c(1) [OF c])
  have "np_neg (np_log10 (Fin r)) = Fin (- log 10 r)" using pos by simp
  then have p: "pre_pH (Fin V_a) (Fin C_a) (Fin C_b) (Fin K_a) (Fin H_w) (Fin v) = Fin (- log 10 r)"
    by (simp only: pre_pH_def h)
  show "preH3Oconc (Fin V_a) (Fin C_a) (Fin C_b) (Fin K_a) (Fin H_w) (Fin v) =
      Fin ((- coeff_b V_a C_b K_a H_w v
            + sqrt ((coeff_b V_a C_b K_a H_w v)\<^sup>2 - 4 * 1 * coeff_c V_a C_a C_b K_a H_w v)) / (2 * 1))"
    using h unfolding r_def b_def c_def .
  show "0 < (- coeff_b V_a C_b K_a H_w v
            + sqrt ((coeff_b V_a C_b K_a H_w v)\<^sup>2 - 4 * 1 * coeff_c V_a C_a C_b K_a H_w v)) / (2 * 1)"
    using pos unfolding r_def b_def c_def .
  show "pre_pH (Fin V_a) (Fin C_a) (Fin C_b) (Fin K_a) (Fin H_w) (Fin v) =
      Fin (- log 10 ((- coeff_b V_a C_b K_a H_w v
            + sqrt ((coeff_b V_a C_b K_a H_w v)\<^sup>2 - 4 * 1 * coeff_c V_a C_a C_b K_a H_w v)) / (2 * 1)))"
    using p unfolding r_def b_def c_def .
qed

lemma pre_half_coeff_c_neg:
  assumes "0 < V_a" and "0 < C_b" and "0 < K_a" and "0 \<le> H_w" and "H_w \<le> K_a"
    and "0 \<le> v" and "2 * (v * C_b) < V_a * C_a"
  shows "coeff_c V_a C_a C_b K_a H_w v < 0"
proof -
  have p: "0 < V_a + v" using assms(1,6) by simp
  have A: "0 \<le> conc_base V_a C_b v"
    using assms(2,6) p by (simp add: conc_base_def)
  have "v * C_b < V_a * C_a - v * C_b" using assms(7) by linarith
  then have lt: "conc_base V_a C_b v < conc_acid V_a C_a C_b v"
    unfolding conc_base_def conc_acid_def using p by (rule divide_strict_right_mono)
  have "conc_base V_a C_b v * H_w \<le> conc_base V_a C_b v * K_a"
    using assms(5) A by (rule mult_left_mono)
  also have "\<dots> < conc_acid V_a C_a C_b v * K_a"
    using lt assms(3) by (rule mult_strict_right_mono)
  finally show ?thesis by (simp add: coeff_c_def)
qed





section \<open>The pH at the half-equivalence point\<close>

lemma larger_root_ge:
  fixes b c l :: real
  assumes "l\<^sup>2 + b * l + c \<le> 0"
  shows "l \<le> (- b + sqrt (b\<^sup>2 - 4 * 1 * c)) / (2 * 1)"
proof -
  define t where "t = l\<^sup>2 + b * l + c"
  define D where "D = b\<^sup>2 - 4 * 1 * c"
  define q where "q = (2 * l + b)\<^sup>2"
  have "t \<le> 0" using assms by (simp add: t_def)
  moreover have "q = 4 * t + D"
    by (simp add: q_def t_def D_def power2_eq_square algebra_simps)
  ultimately have "q \<le> D" by linarith
  then have "(2 * l + b)\<^sup>2 \<le> D" by (simp add: q_def)
  then have "2 * l + b \<le> sqrt D" by (rule real_le_rsqrt)
  then show ?thesis unfolding D_def by simp
qed

lemma larger_root_less:
  fixes b c u :: real
  assumes "0 < 2 * u + b" and "0 < u\<^sup>2 + b * u + c"
  shows "(- b + sqrt (b\<^sup>2 - 4 * 1 * c)) / (2 * 1) < u"
proof -
  define t where "t = u\<^sup>2 + b * u + c"
  define D where "D = b\<^sup>2 - 4 * 1 * c"
  define q where "q = (2 * u + b)\<^sup>2"
  have "0 < t" using assms(2) by (simp add: t_def)
  moreover have "q = 4 * t + D"
    by (simp add: q_def t_def D_def power2_eq_square algebra_simps)
  ultimately have "D < q" by linarith
  then have "sqrt D < sqrt q" by (rule real_sqrt_less_mono)
  moreover have "sqrt q = 2 * u + b" using assms(1) by (simp add: q_def)
  ultimately have "sqrt D < 2 * u + b" by simp
  then show ?thesis unfolding D_def by simp
qed

lemma log10_upper:
  fixes x :: real
  assumes "0 < x" and "0 < n" and "x ^ n * 10 ^ k \<le> 1"
  shows "log 10 x \<le> - real k / real n"
proof -
  have xn: "0 < x ^ n" using assms(1) by simp
  have "x ^ n \<le> 1 / 10 ^ k" using assms(3) by (simp add: field_simps)
  then have "log 10 (x ^ n) \<le> log 10 (1 / 10 ^ k)"
    using xn by (simp del: log_divide_pos)
  moreover have "log 10 (x ^ n) = real n * log 10 x"
    using assms(1) by (simp add: log_nat_power)
  moreover have "log 10 (1 / 10 ^ k) = - real k"
    by (simp add: log_divide)
  ultimately have "real n * log 10 x \<le> - real k" by simp
  then show ?thesis using assms(2) by (simp add: field_simps)
qed

lemma log10_lower:
  fixes x :: real
  assumes "0 < x" and "0 < n" and "1 \<le> x ^ n * 10 ^ k"
  shows "- real k / real n \<le> log 10 x"
proof -
  have xn: "0 < x ^ n" using assms(1) by simp
  have "1 / 10 ^ k \<le> x ^ n" using assms(3) by (simp add: field_simps)
  then have "log 10 (1 / 10 ^ k) \<le> log 10 (x ^ n)"
    using xn by (simp del: log_divide_pos)
  moreover have "log 10 (x ^ n) = real n * log 10 x"
    using assms(1) by (simp add: log_nat_power)
  moreover have "log 10 (1 / 10 ^ k) = - real k"
    by (simp add: log_divide)
  ultimately have "- real k \<le> real n * log 10 x" by simp
  then show ?thesis using assms(2) by (simp add: field_simps)
qed

lemma notebook_half_coeffs:
  "coeff_c acid_VolI acid_ConI base_Con equilibConst H3O_water (67203 / 1906000) < 0"
  "(174 / 10000000)\<^sup>2
     + coeff_b acid_VolI base_Con equilibConst H3O_water (67203 / 1906000) * (174 / 10000000)
     + coeff_c acid_VolI acid_ConI base_Con equilibConst H3O_water (67203 / 1906000) \<le> 0"
  "0 < 2 * (175 / 10000000) + coeff_b acid_VolI base_Con equilibConst H3O_water (67203 / 1906000)"
  "0 < (175 / 10000000)\<^sup>2
     + coeff_b acid_VolI base_Con equilibConst H3O_water (67203 / 1906000) * (175 / 10000000)
     + coeff_c acid_VolI acid_ConI base_Con equilibConst H3O_water (67203 / 1906000)"
  by (simp_all add: coeff_b_def coeff_c_def conc_base_def conc_acid_def power2_eq_square
      acid_VolI_def acid_ConI_def base_Con_def equilibConst_def H3O_water_def)

lemma notebook_half_strict:
  "0 < 2 * equilibConst + coeff_b acid_VolI base_Con equilibConst H3O_water (67203 / 1906000)"
  "0 < equilibConst\<^sup>2
     + coeff_b acid_VolI base_Con equilibConst H3O_water (67203 / 1906000) * equilibConst
     + coeff_c acid_VolI acid_ConI base_Con equilibConst H3O_water (67203 / 1906000)"
  by (simp_all add: coeff_b_def coeff_c_def conc_base_def conc_acid_def power2_eq_square
      acid_VolI_def acid_ConI_def base_Con_def equilibConst_def H3O_water_def)

lemma log10_numbers:
  "log 10 (175 / 10000000) \<le> - (19 / 4)"
  "- (119 / 25) \<le> log 10 (174 / 10000000)"
  "log 10 equilibConst \<le> - (19 / 4)"
  "log 10 (174 / 10000000) \<le> log 10 equilibConst"
  "log 10 (1 / 2) \<le> - (3 / 10)"
proof -
  have "(175 / 10000000 :: real) ^ 4 * 10 ^ 19 \<le> 1" by (simp add: power_divide)
  from log10_upper [OF _ _ this] show "log 10 (175 / 10000000) \<le> - (19 / 4)" by simp
  have "1 \<le> (174 / 10000000 :: real) ^ 25 * 10 ^ 119" by (simp add: power_divide)
  from log10_lower [OF _ _ this] show "- (119 / 25) \<le> log 10 (174 / 10000000)" by simp
  have "(176 / 10000000 :: real) ^ 4 * 10 ^ 19 \<le> 1" by (simp add: power_divide)
  from log10_upper [OF _ _ this] show "log 10 equilibConst \<le> - (19 / 4)"
    by (simp add: equilibConst_def)
  show "log 10 (174 / 10000000) \<le> log 10 equilibConst"
    by (simp add: equilibConst_def)
  have "(1 / 2 :: real) ^ 10 * 10 ^ 3 \<le> 1" by (simp add: power_divide)
  from log10_upper [OF _ _ this] show "log 10 (1 / 2) \<le> - (3 / 10)" by simp
qed

lemma pre_pH_tendsto:
  assumes "0 < V_a" and "0 < v0" and "coeff_c V_a C_a C_b K_a H_w v0 < 0"
    and ev: "\<And>v. 0 < v \<Longrightarrow> v < v0 \<Longrightarrow> coeff_c V_a C_a C_b K_a H_w v < 0"
  shows "((\<lambda>v. np_real (pre_pH (Fin V_a) (Fin C_a) (Fin C_b) (Fin K_a) (Fin H_w) (Fin v)))
          \<longlongrightarrow> np_real (pre_pH (Fin V_a) (Fin C_a) (Fin C_b) (Fin K_a) (Fin H_w) (Fin v0)))
         (at_left v0)"
proof -
  define g where "g = (\<lambda>v. - log 10 ((- coeff_b V_a C_b K_a H_w v
            + sqrt ((coeff_b V_a C_b K_a H_w v)\<^sup>2 - 4 * 1 * coeff_c V_a C_a C_b K_a H_w v)) / (2 * 1)))"
  have v0: "0 \<le> v0" using assms(2) by simp
  note at0 = pre_pH_real [OF assms(1) v0 assms(3)]
  have nz: "V_a + v0 \<noteq> 0" using assms(1,2) by simp
  have val0: "np_real (pre_pH (Fin V_a) (Fin C_a) (Fin C_b) (Fin K_a) (Fin H_w) (Fin v0)) = g v0"
    unfolding at0(3) g_def by simp
  have "(g \<longlongrightarrow> g v0) (at v0)"
    unfolding g_def coeff_b_def coeff_c_def conc_base_def conc_acid_def
    by (intro tendsto_intros)
      (use nz at0(2) in \<open>simp_all add: coeff_b_def coeff_c_def conc_base_def conc_acid_def\<close>)
  then have lim: "(g \<longlongrightarrow> g v0) (at_left v0)"
    by (rule tendsto_mono [rotated]) (simp add: at_le)
  have "eventually (\<lambda>v. v \<in> {0<..<v0}) (at_left v0)"
    by (rule eventually_at_left_real [OF assms(2)])
  then have "eventually (\<lambda>v. g v = np_real (pre_pH (Fin V_a) (Fin C_a) (Fin C_b) (Fin K_a) (Fin H_w) (Fin v)))
      (at_left v0)"
  proof (rule eventually_mono)
    fix v assume "v \<in> {0<..<v0}"
    then have v: "0 < v" "v < v0" by simp_all
    then have "0 \<le> v" by simp
    from pre_pH_real(3) [OF assms(1) this ev [OF v]]
    show "g v = np_real (pre_pH (Fin V_a) (Fin C_a) (Fin C_b) (Fin K_a) (Fin H_w) (Fin v))"
      unfolding g_def by simp
  qed
  with lim show ?thesis
    unfolding val0 by (rule Lim_transform_eventually)
qed


text \<open>
  C9 (as the code has it). For the notebook's values (0.0513 L of 0.131 M acid, 0.0953 M
  base, \<open>K_a = 1.76e-5\<close>, water term \<open>1e-7\<close>) the half-equivalence volume is
  \<open>67203/1906000\<close>; as \<open>v\<close> approaches it from below the pH of the buffer model tends
  to the pH \<open>p\<close> of the model at that volume, which lies between 4.75 and 4.76, within
  0.01 of \<open>pKa = -log10(K_a)\<close> and of 4.754, and strictly above \<open>pKa\<close>.
\<close>

theorem pre_pH_at_half_equivalence:
  "equivalence_cell acid_VolI acid_ConI base_Con =
     Inr \<lparr>acid_MolI = 67203 / 10000000, eq_pt = 67203 / 953000, half_eq_pt = 67203 / 1906000\<rparr>
   \<and> (\<exists>p. pre_pH (Fin acid_VolI) (Fin acid_ConI) (Fin base_Con) (Fin equilibConst) (Fin H3O_water)
            (Fin (67203 / 1906000)) = Fin p
        \<and> ((\<lambda>v. np_real (pre_pH (Fin acid_VolI) (Fin acid_ConI) (Fin base_Con) (Fin equilibConst)
                   (Fin H3O_water) (Fin v))) \<longlongrightarrow> p) (at_left (67203 / 1906000))
        \<and> 475 / 100 \<le> p \<and> p \<le> 476 / 100
        \<and> \<bar>p - (- log 10 equilibConst)\<bar> \<le> 1 / 100
        \<and> \<bar>p - 4754 / 1000\<bar> \<le> 1 / 100
        \<and> - log 10 equilibConst < p)"
proof -
  define b where "b = coeff_b acid_VolI base_Con equilibConst H3O_water (67203 / 1906000)"
  define c where "c = coeff_c acid_VolI acid_ConI base_Con equilibConst H3O_water (67203 / 1906000)"
  define r where "r = (- b + sqrt (b\<^sup>2 - 4 * 1 * c)) / (2 * 1)"
  define p where "p = - log 10 r"
  note co = notebook_half_coeffs [folded b_def c_def]
  note st = notebook_half_strict [folded b_def c_def]
  have vpos: "(0::real) < 67203 / 1906000" by simp
  then have v0: "(0::real) \<le> 67203 / 1906000" by simp
  note re = pre_pH_real [OF notebook_positive(1) v0 notebook_half_coeffs(1), folded b_def c_def, folded r_def]
  have pH: "pre_pH (Fin acid_VolI) (Fin acid_ConI) (Fin base_Con) (Fin equilibConst) (Fin H3O_water)
            (Fin (67203 / 1906000)) = Fin p"
    unfolding p_def by (rule re(3))
  have rpos: "0 < r" by (rule re(2))
  have lo: "174 / 10000000 \<le> r" unfolding r_def by (rule larger_root_ge [OF co(2)])
  have hi: "r < 175 / 10000000" unfolding r_def by (rule larger_root_less [OF co(3,4)])
  have rK: "r < equilibConst" unfolding r_def by (rule larger_root_less [OF st])
  have Kpos: "0 < equilibConst" by (rule notebook_positive(4))
  have "log 10 r < log 10 (175 / 10000000)" using hi rpos by simp
  with log10_numbers(1) have p1: "475 / 100 \<le> p" unfolding p_def by linarith
  have "log 10 (174 / 10000000) \<le> log 10 r" using lo rpos by simp
  with log10_numbers(2) have p2: "p \<le> 476 / 100" unfolding p_def by linarith
  have k1: "475 / 100 \<le> - log 10 equilibConst" using log10_numbers(3) by linarith
  have k2: "- log 10 equilibConst \<le> 476 / 100" using log10_numbers(2,4) by linarith
  have "log 10 r < log 10 equilibConst" using rK rpos Kpos by simp
  then have p5: "- log 10 equilibConst < p" unfolding p_def by linarith
  have p3: "\<bar>p - (- log 10 equilibConst)\<bar> \<le> 1 / 100" using p1 p2 k1 k2 by linarith
  have p4: "\<bar>p - 4754 / 1000\<bar> \<le> 1 / 100" using p1 p2 by linarith
  have neg: "coeff_c acid_VolI acid_ConI base_Con equilibConst H3O_water v < 0"
    if "0 < v" and "v < 67203 / 1906000" for v
  proof -
    have "0 \<le> v" using that(1) by simp
    moreover have "2 * (v * base_Con) < acid_VolI * acid_ConI"
      using that(2) by (simp add: base_Con_def acid_VolI_def acid_ConI_def)
    moreover have "H3O_water \<le> equilibConst" by (simp add: H3O_water_def equilibConst_def)
    ultimately show ?thesis
      using notebook_positive by (intro pre_half_coeff_c_neg) simp_all
  qed
  have "((\<lambda>v. np_real (pre_pH (Fin acid_VolI) (Fin acid_ConI) (Fin base_Con) (Fin equilibConst)
                   (Fin H3O_water) (Fin v)))
          \<longlongrightarrow> np_real (pre_pH (Fin acid_VolI) (Fin acid_ConI) (Fin base_Con) (Fin equilibConst)
                   (Fin H3O_water) (Fin (67203 / 1906000)))) (at_left (67203 / 1906000))"
    by (rule pre_pH_tendsto [OF notebook_positive(1) vpos notebook_half_coeffs(1) neg])
  then have lim: "((\<lambda>v. np_real (pre_pH (Fin acid_VolI) (Fin acid_ConI) (Fin base_Con) (Fin equilibConst)
                   (Fin H3O_water) (Fin v))) \<longlongrightarrow> p) (at_left (67203 / 1906000))"
    unfolding pH by simp
  from pH lim p1 p2 p3 p4 p5 notebook_equivalence show ?thesis by blast
qed

text \<open>
  With the same \<open>K_a = 1.76e-5\<close> and water term but a dilute acid (1 L of 5.28e-5 M acid,
  titrated with 5.28e-5 M base) the half-equivalence volume is 0.5 L, and the pH of the
  buffer model there exceeds \<open>pKa\<close> by more than 0.3.
\<close>

theorem pre_pH_half_not_pKa_counterexample:
  "equivalence_cell 1 (528 / 10000000) (528 / 10000000) =
     Inr \<lparr>acid_MolI = 528 / 10000000, eq_pt = 1, half_eq_pt = 1 / 2\<rparr>
   \<and> np_lt (Fin (- log 10 equilibConst + 3 / 10))
        (pre_pH (Fin 1) (Fin (528 / 10000000)) (Fin (528 / 10000000)) (Fin equilibConst)
           (Fin H3O_water) (Fin (1 / 2)))"
proof -
  define b where "b = coeff_b 1 (528 / 10000000) equilibConst H3O_water (1 / 2)"
  define c where "c = coeff_c 1 (528 / 10000000) (528 / 10000000) equilibConst H3O_water (1 / 2)"
  define r where "r = (- b + sqrt (b\<^sup>2 - 4 * 1 * c)) / (2 * 1)"
  have c: "coeff_c 1 (528 / 10000000) (528 / 10000000) equilibConst H3O_water (1 / 2) < 0"
    by (simp add: coeff_c_def conc_base_def conc_acid_def equilibConst_def H3O_water_def)
  have u: "0 < 2 * (equilibConst / 2) + b" "0 < (equilibConst / 2)\<^sup>2 + b * (equilibConst / 2) + c"
    by (simp_all add: b_def c_def coeff_b_def coeff_c_def conc_base_def conc_acid_def
        power2_eq_square equilibConst_def H3O_water_def)
  have one: "(0::real) < 1" and half: "(0::real) \<le> 1 / 2" by simp_all
  note re = pre_pH_real [OF one half c, folded b_def c_def, folded r_def]
  have rpos: "0 < r" by (rule re(2))
  have Kpos: "0 < equilibConst" by (rule notebook_positive(4))
  have "r < equilibConst / 2" unfolding r_def by (rule larger_root_less [OF u])
  then have "log 10 r < log 10 (equilibConst * (1 / 2))" using rpos by simp
  also have "\<dots> = log 10 equilibConst + log 10 (1 / 2)"
    by (rule log_mult_pos) (use Kpos in simp_all)
  finally have "- log 10 equilibConst + 3 / 10 < - log 10 r"
    using log10_numbers(5) by linarith
  then have "np_lt (Fin (- log 10 equilibConst + 3 / 10))
        (pre_pH (Fin 1) (Fin (528 / 10000000)) (Fin (528 / 10000000)) (Fin equilibConst)
           (Fin H3O_water) (Fin (1 / 2)))"
    unfolding re(3) by simp
  moreover have "equivalence_cell 1 (528 / 10000000) (528 / 10000000) =
     Inr \<lparr>acid_MolI = 528 / 10000000, eq_pt = 1, half_eq_pt = 1 / 2\<rparr>"
    by (simp add: equivalence_cell_pos)
  ultimately show ?thesis by simp
qed

section \<open>The notebook's own values\<close>

text \<open>
  C5 (as the code has it). For the notebook's values 0.0513, 0.131 and 0.0953 the cell
  computes \<open>acid_MolI = acid_VolI * acid_ConI\<close>, \<open>eq_pt = acid_MolI / base_Con\<close> and
  \<open>half_eq_pt = eq_pt / 2\<close>, with \<open>0 < half_eq_pt < eq_pt\<close>; the moles are within
  relative tolerance 1e-3 of 0.00672, the equivalence volume within 1e-3 of 0.0705, and the
  half-equivalence volume within 1.2e-3 of 0.0353.
\<close>

theorem equivalence_geometry:
  "\<exists>e. equivalence_cell acid_VolI acid_ConI base_Con = Inr e
      \<and> acid_MolI e = acid_VolI * acid_ConI \<and> eq_pt e = acid_MolI e / base_Con
      \<and> half_eq_pt e = eq_pt e / 2
      \<and> 0 < half_eq_pt e \<and> half_eq_pt e < eq_pt e
      \<and> within_rel (1 / 1000) (672 / 100000) (acid_MolI e)
      \<and> within_rel (1 / 1000) (705 / 10000) (eq_pt e)
      \<and> within_rel (12 / 10000) (353 / 10000) (half_eq_pt e)"
proof -
  define e where "e = \<lparr>acid_MolI = 67203 / 10000000, eq_pt = 67203 / 953000, half_eq_pt = 67203 / 1906000\<rparr>"
  have 1: "equivalence_cell acid_VolI acid_ConI base_Con = Inr e"
    unfolding e_def by (rule notebook_equivalence)
  have 2: "acid_MolI e = acid_VolI * acid_ConI"
    by (simp add: e_def acid_VolI_def acid_ConI_def)
  have 3: "eq_pt e = acid_MolI e / base_Con"
    by (simp add: e_def base_Con_def)
  have 4: "half_eq_pt e = eq_pt e / 2" "0 < half_eq_pt e" "half_eq_pt e < eq_pt e"
    by (simp_all add: e_def)
  have 5: "within_rel (1 / 1000) (672 / 100000) (acid_MolI e)"
    "within_rel (1 / 1000) (705 / 10000) (eq_pt e)"
    "within_rel (12 / 10000) (353 / 10000) (half_eq_pt e)"
    by (simp_all add: e_def within_rel_def)
  from 1 2 3 4 5 show ?thesis by blast
qed



section \<open>Rounding to float64\<close>





lemma f64_exp_subnormal:
  assumes "x \<noteq> 0" and "\<bar>x\<bar> < 2 powi (- 1022)"
  shows "f64_exp x = - 1074"
proof -
  have pos: "0 < \<bar>x\<bar>" using assms(1) by simp
  define r :: real where "r = real_of_int (- 1022)"
  have a: "(2::real) powr r = 2 powi (- 1022)"
    unfolding r_def by (rule powr_real_of_int') simp_all
  have lt: "\<bar>x\<bar> < 2 powr r" using assms(2) unfolding a .
  have "\<lfloor>log 2 \<bar>x\<bar>\<rfloor> < - 1022"
  proof -
    have "log 2 \<bar>x\<bar> < log 2 (2 powr r)"
      by (rule iffD2 [OF log_less_cancel_iff]) (use pos lt in simp_all)
    then have "log 2 \<bar>x\<bar> < r" by simp
    then show ?thesis unfolding r_def by linarith
  qed
  then show ?thesis by (simp add: f64_exp_def)
qed

lemma f64_exp_ge: "- 1074 \<le> f64_exp x"
  by (simp add: f64_exp_def)










lemma f64_sqrt_Fin [simp]: "0 \<le> a \<Longrightarrow> f64_sqrt (Fin a) = rnd64 (sqrt a)"
  by (simp add: f64_sqrt_def)















section \<open>The solver on float64\<close>












section \<open>The buffer cell on float64\<close>









section \<open>The volume grid on float64\<close>





end
